theory Spec2Isabelle
  imports Main
begin

section \<open>The AQI prediction script (app.py)\<close>

text \<open>
  The repository is one Streamlit script. Streamlit runs it from the first line to the
  last on every user action, so one run of the script is modelled as one function
  \<open>run_script\<close> from the environment of that run (the uploaded file, the model
  artifact on disk, whether the button was pressed) to the effects of the run, the way it
  ended and the final value of the variable \<open>data\<close>.

  A Python \<open>str\<close> is a \<open>string\<close>, one \<open>char\<close> for every code point; the code
  points from U+0000 to U+00FF are the ones a \<open>char\<close> can hold, and text beyond them
  is outside the model. A Python \<open>bytes\<close> is a \<open>string\<close> too, one \<open>char\<close> for every
  byte.
\<close>

subsection \<open>Exceptions\<close>

text \<open>
  The script tells exceptions apart only through \<open>except FileNotFoundError\<close> and
  \<open>except Exception\<close>. \<open>FileNotFoundError\<close> stands for that class and its
  subclasses, \<open>OtherException n\<close> for a class \<open>n\<close> below \<open>Exception\<close> that is none of
  the named ones, and \<open>NonException n\<close> for a class below \<open>BaseException\<close> only
  (\<open>KeyboardInterrupt\<close>, \<open>SystemExit\<close>).
\<close>

datatype py_class =
    FileNotFoundError
  | KeyError
  | ValueError
  | OtherException string
  | NonException string

datatype exn = Exn (klass: py_class) (message: string)

fun is_Exception :: "py_class \<Rightarrow> bool" where
  "is_Exception (NonException n) = False"
| "is_Exception c = True"

subsection \<open>Data frames\<close>

text \<open>
  A pandas \<open>DataFrame\<close> with the default \<open>RangeIndex\<close>: the length of the index and
  the columns in their order, each a label with its values. \<open>NaN\<close> is the missing value.
\<close>

datatype 'v cell = Scalar 'v | NaN

record 'v dataframe =
  index_len :: nat
  columns :: "(string \<times> 'v cell list) list"

definition column_names :: "'v dataframe \<Rightarrow> string list" where
  "column_names df = map fst (columns df)"

definition well_formed :: "'v dataframe \<Rightarrow> bool" where
  "well_formed df \<longleftrightarrow>
     distinct (column_names df) \<and> (\<forall>(k, c) \<in> set (columns df). length c = index_len df)"

definition cell_at :: "'v cell list \<Rightarrow> nat \<Rightarrow> 'v cell" where
  "cell_at c i = (if i < length c then c ! i else NaN)"

definition row :: "'v dataframe \<Rightarrow> nat \<Rightarrow> (string \<times> 'v cell) list" where
  "row df i = map (\<lambda>(k, c). (k, cell_at c i)) (columns df)"

definition rows :: "'v dataframe \<Rightarrow> (string \<times> 'v cell) list list" where
  "rows df = map (row df) [0..<index_len df]"

text \<open>\<open>DataFrame.head()\<close>: the first five rows.\<close>

definition head :: "'v dataframe \<Rightarrow> 'v dataframe" where
  "head df = \<lparr>index_len = min 5 (index_len df),
              columns = map (\<lambda>(k, c). (k, take 5 c)) (columns df)\<rparr>"

text \<open>
  \<open>DataFrame.drop(columns=labels, errors=...)\<close>: a new frame without the columns
  carrying one of the labels. With \<open>errors='raise'\<close> a label that is no column raises
  \<open>KeyError\<close>; with \<open>errors='ignore'\<close> it is skipped.
\<close>

datatype errors_mode = errors_raise | errors_ignore

definition drop_columns :: "string list \<Rightarrow> errors_mode \<Rightarrow> 'v dataframe \<Rightarrow> exn + 'v dataframe" where
  "drop_columns labels errors df =
     (if errors = errors_raise \<and> (\<exists>l \<in> set labels. l \<notin> set (column_names df))
      then Inl (Exn KeyError ''labels not found in axis'')
      else Inr (df\<lparr>columns := filter (\<lambda>(k, c). k \<notin> set labels) (columns df)\<rparr>))"

text \<open>
  \<open>df[key] = values\<close> for a one-dimensional sequence of values. An existing column
  labelled \<open>key\<close> is replaced where it stands, otherwise the column is added at the end.
  pandas first makes the index valid: a frame whose index is empty takes the index of a
  non-empty value, its columns being filled with \<open>NaN\<close>. After that the value's length
  has to be the length of the index, or \<open>ValueError\<close> is raised and the frame is as before.
\<close>

definition set_column ::
  "string \<Rightarrow> 'v cell list \<Rightarrow> (string \<times> 'v cell list) list \<Rightarrow> (string \<times> 'v cell list) list" where
  "set_column key v cols =
     (if key \<in> set (map fst cols)
      then map (\<lambda>(k, c). if k = key then (k, v) else (k, c)) cols
      else cols @ [(key, v)])"

definition setitem :: "string \<Rightarrow> 'v cell list \<Rightarrow> 'v dataframe \<Rightarrow> exn + 'v dataframe" where
  "setitem key v df =
     (if index_len df = 0 \<and> v \<noteq> []
      then Inr \<lparr>index_len = length v,
                columns = set_column key v
                  (map (\<lambda>(k, c). (k, replicate (length v) NaN)) (columns df))\<rparr>
      else if length v \<noteq> index_len df
      then Inl (Exn ValueError ''Length of values does not match length of index'')
      else Inr (df\<lparr>columns := set_column key v (columns df)\<rparr>))"

subsection \<open>CSV export\<close>

text \<open>
  \<open>DataFrame.to_csv(index=...)\<close> with the other arguments at their defaults: a header
  line, the comma as separator, a missing value written as the empty field, minimal
  quoting (a field holding the separator, a quote or a line break is put in quotes, its
  quotes doubled; a record that is one empty field is written as two quotes), every
  record ended by a line feed. With \<open>index=True\<close> every record starts with the row's
  label, the header with an empty field. \<open>fmt\<close> is the text of a scalar.
\<close>

fun str_nat :: "nat \<Rightarrow> string" where
  "str_nat n =
     (if n < 10 then [char_of (48 + n)] else str_nat (n div 10) @ [char_of (48 + n mod 10)])"

definition str_int :: "int \<Rightarrow> string" where
  "str_int i = (if i < 0 then CHR ''-'' # str_nat (nat (- i)) else str_nat (nat i))"

definition needs_quote :: "string \<Rightarrow> bool" where
  "needs_quote s \<longleftrightarrow> (\<exists>c \<in> set s. c = CHR '','' \<or> c = CHR 0x22 \<or> c = CHR 0x0A \<or> c = CHR 0x0D)"

definition csv_field :: "string \<Rightarrow> string" where
  "csv_field s =
     (if needs_quote s
      then [CHR 0x22] @ concat (map (\<lambda>c. if c = CHR 0x22 then [c, c] else [c]) s) @ [CHR 0x22]
      else s)"

fun join :: "string \<Rightarrow> string list \<Rightarrow> string" where
  "join sep [] = []"
| "join sep [x] = x"
| "join sep (x # y # ys) = x @ sep @ join sep (y # ys)"

definition csv_record :: "string list \<Rightarrow> string" where
  "csv_record fs =
     (if fs = [[]] then [CHR 0x22, CHR 0x22] else join '','' (map csv_field fs))
     @ [CHR 0x0A]"

definition str_cell :: "('v \<Rightarrow> string) \<Rightarrow> 'v cell \<Rightarrow> string" where
  "str_cell fmt x = (case x of Scalar v \<Rightarrow> fmt v | NaN \<Rightarrow> [])"

definition to_csv :: "('v \<Rightarrow> string) \<Rightarrow> bool \<Rightarrow> 'v dataframe \<Rightarrow> string" where
  "to_csv fmt index df =
     concat (map csv_record
       (((if index then [[]] else []) @ column_names df)
        # map (\<lambda>i. (if index then [str_nat i] else []) @ map (str_cell fmt \<circ> snd) (row df i))
              [0..<index_len df]))"

text \<open>
  \<open>str.encode('utf-8')\<close>: a code point below U+0080 is one byte, the others (up to
  U+00FF here, so below U+0800) are two, \<open>0xC0 + cp div 64\<close> and \<open>0x80 + cp mod 64\<close>.
\<close>

definition utf8_char :: "char \<Rightarrow> string" where
  "utf8_char c =
     (if of_char c < (128::nat) then [c]
      else [char_of (192 + of_char c div 64 :: nat), char_of (128 + of_char c mod 64 :: nat)])"

definition encode_utf8 :: "string \<Rightarrow> string" where
  "encode_utf8 s = concat (map utf8_char s)"

text \<open>
  What a reader of UTF-8 makes of bytes: the code points, of one to four bytes each, or
  nothing when the bytes are not UTF-8 (a stray continuation byte, a sequence cut short,
  an overlong form, a surrogate, a value beyond U+10FFFF).
\<close>

definition continuation :: "char \<Rightarrow> bool" where
  "continuation b \<longleftrightarrow> (128::nat) \<le> of_char b \<and> of_char b < (192::nat)"

definition low6 :: "char \<Rightarrow> nat" where
  "low6 b = of_char b - 128"

fun decode_utf8 :: "string \<Rightarrow> nat list option" where
  "decode_utf8 [] = Some []"
| "decode_utf8 (b # bs) =
     (if of_char b < (128::nat) then map_option (Cons (of_char b)) (decode_utf8 bs)
      else if (194::nat) \<le> of_char b \<and> of_char b < (224::nat) then
        (case bs of
           b1 # r \<Rightarrow>
             if continuation b1
             then map_option (Cons ((of_char b - 192) * 64 + low6 b1)) (decode_utf8 r)
             else None
         | _ \<Rightarrow> None)
      else if (224::nat) \<le> of_char b \<and> of_char b < (240::nat) then
        (case bs of
           b1 # b2 # r \<Rightarrow>
             (let cp = (of_char b - 224) * 4096 + low6 b1 * 64 + low6 b2
              in if continuation b1 \<and> continuation b2 \<and> 2048 \<le> cp \<and>
                    \<not> (55296 \<le> cp \<and> cp < 57344)
                 then map_option (Cons cp) (decode_utf8 r)
                 else None)
         | _ \<Rightarrow> None)
      else if (240::nat) \<le> of_char b \<and> of_char b < (245::nat) then
        (case bs of
           b1 # b2 # b3 # r \<Rightarrow>
             (let cp = (of_char b - 240) * 262144 + low6 b1 * 4096 + low6 b2 * 64 + low6 b3
              in if continuation b1 \<and> continuation b2 \<and> continuation b3 \<and>
                    65536 \<le> cp \<and> cp < 1114112
                 then map_option (Cons cp) (decode_utf8 r)
                 else None)
         | _ \<Rightarrow> None)
      else None)"

text \<open>Line 34: \<open>data.to_csv(index=False).encode('utf-8')\<close>.\<close>

definition export_csv :: "('v \<Rightarrow> string) \<Rightarrow> 'v dataframe \<Rightarrow> string" where
  "export_csv fmt df = encode_utf8 (to_csv fmt False df)"

subsection \<open>The script\<close>

text \<open>
  What a run does to the outside: the Streamlit calls in their order, and the calls of
  \<open>pd.read_csv\<close>, \<open>joblib.load\<close> and \<open>model.predict\<close>.
\<close>

datatype 'v event =
    SetPageConfig string string
  | Title string
  | Markdown string
  | FileUploader string "string list"
  | ReadCsv string
  | Subheader string
  | Write "'v dataframe"
  | JoblibLoad string
  | Error string
  | Button string
  | ModelPredict "'v dataframe"
  | DownloadButton string string string string

text \<open>
  A predictor is what \<open>model.predict\<close> does with a frame: it raises, or returns the
  sequence of predictions.
\<close>

type_synonym 'v predictor = "'v dataframe \<Rightarrow> exn + 'v cell list"

record 'v env =
  uploaded_file :: "string option"
  read_csv :: "string \<Rightarrow> exn + 'v dataframe"
  joblib_load :: "string \<Rightarrow> exn + 'v predictor"
  button_clicked :: bool
  str_of :: "'v \<Rightarrow> string"

datatype outcome = Completed | Stopped | Uncaught exn

record 'v run =
  effects :: "'v event list"
  result :: outcome
  data :: "'v dataframe option"

text \<open>
  Lines 28 to 30, the prediction itself: the call of the predictor it makes, and the
  exception raised or the frame \<open>data\<close> after the assignment. The frame is changed
  by the assignment only, so an exception leaves it as it was.
\<close>

definition predict ::
  "'v predictor \<Rightarrow> 'v dataframe \<Rightarrow> 'v event list \<times> (exn + 'v dataframe)" where
  "predict model d =
     (case drop_columns [''AQI''] errors_ignore d of
        Inl e \<Rightarrow> ([], Inl e)
      | Inr features \<Rightarrow>
          (case model features of
             Inl e \<Rightarrow> ([ModelPredict features], Inl e)
           | Inr predictions \<Rightarrow>
               ([ModelPredict features], setitem ''Predicted_AQI'' predictions d)))"

text \<open>
  Lines 28 to 35, the body of the \<open>try\<close>: the effects so far, the value of \<open>data\<close>,
  and the exception that ended the body, if one did.
\<close>

definition try_body ::
  "'v env \<Rightarrow> 'v predictor \<Rightarrow> 'v dataframe \<Rightarrow> 'v event list \<times> 'v dataframe \<times> exn option" where
  "try_body env model d =
     (case predict model d of
        (evs, Inl e) \<Rightarrow> (evs, d, Some e)
      | (evs, Inr d') \<Rightarrow>
          (evs @ [Subheader ''Prediction Results'', Write d',
                  DownloadButton ''Download Results as CSV'' (export_csv (str_of env) d')
                    ''predicted_aqi.csv'' ''text/csv''],
           d', None))"

text \<open>Lines 27 to 37: the \<open>try\<close> with its handler \<open>except Exception as e\<close>.\<close>

definition prediction_block ::
  "'v env \<Rightarrow> 'v predictor \<Rightarrow> 'v dataframe \<Rightarrow> 'v event list \<times> 'v dataframe \<times> outcome" where
  "prediction_block env model d =
     (case try_body env model d of
        (evs, d', None) \<Rightarrow> (evs, d', Completed)
      | (evs, d', Some e) \<Rightarrow>
          (if is_Exception (klass e)
           then (evs @ [Error (''Prediction failed: '' @ message e)], d', Completed)
           else (evs, d', Uncaught e)))"

text \<open>Lines 19 to 23: loading the model; \<open>st.stop()\<close> ends the run.\<close>

definition load_model :: "'v env \<Rightarrow> 'v event list \<times> (outcome + 'v predictor)" where
  "load_model env =
     (case joblib_load env ''air_quality_model.pkl'' of
        Inr model \<Rightarrow> ([JoblibLoad ''air_quality_model.pkl''], Inr model)
      | Inl e \<Rightarrow>
          (if klass e = FileNotFoundError
           then ([JoblibLoad ''air_quality_model.pkl'',
                  Error ''Model file not found! Please add 'air_quality_model.pkl'.''],
                 Inl Stopped)
           else ([JoblibLoad ''air_quality_model.pkl''], Inl (Uncaught e))))"

definition page_top :: "'v event list" where
  "page_top =
     [SetPageConfig ''Air Quality Predictor'' ''centered'',
      Title ''Air Quality Index (AQI) Prediction'',
      Markdown ''Upload the data and get AQI predictions instantly.'',
      FileUploader ''Upload your CSV file'' [''csv'']]"

definition run_script :: "'v env \<Rightarrow> 'v run" where
  "run_script env =
     (case uploaded_file env of
        None \<Rightarrow> \<lparr>effects = page_top, result = Completed, data = None\<rparr>
      | Some f \<Rightarrow>
          (case read_csv env f of
             Inl e \<Rightarrow> \<lparr>effects = page_top @ [ReadCsv f], result = Uncaught e, data = None\<rparr>
           | Inr d \<Rightarrow>
               (let preview = [ReadCsv f, Subheader ''Input Data Preview'', Write (head d)]
                in case load_model env of
                     (evs, Inl out) \<Rightarrow>
                       \<lparr>effects = page_top @ preview @ evs, result = out, data = Some d\<rparr>
                   | (evs, Inr model) \<Rightarrow>
                       (if button_clicked env
                        then (case prediction_block env model d of
                                (evs', d', out) \<Rightarrow>
                                  \<lparr>effects = page_top @ preview @ evs @ [Button ''Predict AQI''] @ evs',
                                   result = out, data = Some d'\<rparr>)
                        else \<lparr>effects = page_top @ preview @ evs @ [Button ''Predict AQI''],
                              result = Completed, data = Some d\<rparr>))))"

subsection \<open>The script on a store of objects\<close>

text \<open>
  The same lines with the Python objects made explicit, for what a second press of the
  button sees of the first. A frame and an unpickled model are objects in a store, named
  by their place in it; \<open>pd.read_csv\<close>, \<open>joblib.load\<close> and \<open>DataFrame.drop\<close> make a
  new object, line 30 changes the frame that \<open>data\<close> names in place, and
  \<open>model.predict\<close> may change the state of the model object it is called on. The store
  that a run leaves is the store the next run starts from.
\<close>

record ('v, 'm) heap =
  frames :: "'v dataframe list"
  models :: "'m list"

record ('v, 'm) session =
  upload :: "string option"
  pd_read_csv :: "string \<Rightarrow> exn + 'v dataframe"
  load :: "string \<Rightarrow> exn + 'm"
  predict_method :: "'m \<Rightarrow> 'v dataframe \<Rightarrow> (exn + 'v cell list) \<times> 'm"
  pressed :: bool
  cell_text :: "'v \<Rightarrow> string"

definition new_frame :: "'v dataframe \<Rightarrow> ('v, 'm) heap \<Rightarrow> nat \<times> ('v, 'm) heap" where
  "new_frame d h = (length (frames h), h\<lparr>frames := frames h @ [d]\<rparr>)"

definition new_model :: "'m \<Rightarrow> ('v, 'm) heap \<Rightarrow> nat \<times> ('v, 'm) heap" where
  "new_model m h = (length (models h), h\<lparr>models := models h @ [m]\<rparr>)"

text \<open>The handler \<open>except Exception as e\<close> of line 36.\<close>

definition failed ::
  "exn \<Rightarrow> 'v event list \<Rightarrow> ('v, 'm) heap \<Rightarrow> 'v event list \<times> outcome \<times> ('v, 'm) heap" where
  "failed e evs h =
     (if is_Exception (klass e)
      then (evs @ [Error (''Prediction failed: '' @ message e)], Completed, h)
      else (evs, Uncaught e, h))"

text \<open>Lines 27 to 37 on the objects that \<open>data\<close> and \<open>model\<close> name.\<close>

definition predict_in_place ::
  "('v, 'm) session \<Rightarrow> nat \<Rightarrow> nat \<Rightarrow> ('v, 'm) heap \<Rightarrow>
     'v event list \<times> outcome \<times> ('v, 'm) heap" where
  "predict_in_place s data_ref model_ref h =
     (case drop_columns [''AQI''] errors_ignore (frames h ! data_ref) of
        Inl e \<Rightarrow> failed e [] h
      | Inr dropped \<Rightarrow>
          (case new_frame dropped h of
             (features_ref, h1) \<Rightarrow>
               (case predict_method s (models h1 ! model_ref) (frames h1 ! features_ref) of
                  (answer, m') \<Rightarrow>
                    (let h2 = h1\<lparr>models := (models h1)[model_ref := m']\<rparr>;
                         called = [ModelPredict (frames h1 ! features_ref)]
                     in case answer of
                          Inl e \<Rightarrow> failed e called h2
                        | Inr predictions \<Rightarrow>
                            (case setitem ''Predicted_AQI'' predictions (frames h2 ! data_ref) of
                               Inl e \<Rightarrow> failed e called h2
                             | Inr d' \<Rightarrow>
                                 (let h3 = h2\<lparr>frames := (frames h2)[data_ref := d']\<rparr>
                                  in (called @
                                      [Subheader ''Prediction Results'', Write (frames h3 ! data_ref),
                                       DownloadButton ''Download Results as CSV''
                                         (export_csv (cell_text s) (frames h3 ! data_ref))
                                         ''predicted_aqi.csv'' ''text/csv''],
                                      Completed, h3)))))))"

text \<open>One run of the script, lines 7 to 37, from the store the run before it left.\<close>

definition press :: "('v, 'm) session \<Rightarrow> ('v, 'm) heap \<Rightarrow> 'v run \<times> ('v, 'm) heap" where
  "press s h =
     (case upload s of
        None \<Rightarrow> (\<lparr>effects = page_top, result = Completed, data = None\<rparr>, h)
      | Some f \<Rightarrow>
          (case pd_read_csv s f of
             Inl e \<Rightarrow> (\<lparr>effects = page_top @ [ReadCsv f], result = Uncaught e, data = None\<rparr>, h)
           | Inr d \<Rightarrow>
               (case new_frame d h of
                  (data_ref, h1) \<Rightarrow>
                    (let preview = [ReadCsv f, Subheader ''Input Data Preview'',
                                    Write (head (frames h1 ! data_ref))]
                     in case load s ''air_quality_model.pkl'' of
                          Inl e \<Rightarrow>
                            (if klass e = FileNotFoundError
                             then (\<lparr>effects = page_top @ preview @
                                      [JoblibLoad ''air_quality_model.pkl'',
                                       Error ''Model file not found! Please add 'air_quality_model.pkl'.''],
                                    result = Stopped, data = Some (frames h1 ! data_ref)\<rparr>, h1)
                             else (\<lparr>effects = page_top @ preview @
                                      [JoblibLoad ''air_quality_model.pkl''],
                                    result = Uncaught e, data = Some (frames h1 ! data_ref)\<rparr>, h1))
                        | Inr m \<Rightarrow>
                            (case new_model m h1 of
                               (model_ref, h2) \<Rightarrow>
                                 (let loaded = preview @ [JoblibLoad ''air_quality_model.pkl'',
                                                          Button ''Predict AQI'']
                                  in if pressed s
                                     then (case predict_in_place s data_ref model_ref h2 of
                                             (evs, out, h3) \<Rightarrow>
                                               (\<lparr>effects = page_top @ loaded @ evs, result = out,
                                                 data = Some (frames h3 ! data_ref)\<rparr>, h3))
                                     else (\<lparr>effects = page_top @ loaded, result = Completed,
                                            data = Some (frames h2 ! data_ref)\<rparr>, h2)))))))"

text \<open>
  The environment of \<open>run_script\<close> that a session stands for: the predictor of a run is
  the first answer of a model object fresh from the artifact.
\<close>

definition session_env :: "('v, 'm) session \<Rightarrow> 'v env" where
  "session_env s =
     \<lparr>uploaded_file = upload s,
      read_csv = pd_read_csv s,
      joblib_load = (\<lambda>path. case load s path of
                               Inl e \<Rightarrow> Inl e
                             | Inr m \<Rightarrow> Inr (\<lambda>features. fst (predict_method s m features))),
      button_clicked = pressed s,
      str_of = cell_text s\<rparr>"

subsection \<open>Reading CSV text\<close>

text \<open>
  What a reader of CSV text sees in it: the records, each the list of its fields. A
  field that starts with a quote runs to the closing quote, a doubled quote in it being
  one quote; otherwise it runs to the next comma or line feed. An empty line is a
  record without fields. The properties of the exported text are stated through it.
\<close>

datatype scan_state = RecordStart | FieldStart | Plain | Quoted | QuoteSeen

fun scan :: "scan_state \<Rightarrow> string \<Rightarrow> string list \<Rightarrow> string \<Rightarrow> string list list" where
  "scan st cur rec [] = (if st = RecordStart then [] else [rev (rev cur # rec)])"
| "scan st cur rec (c # cs) =
     (if st = Quoted then
        (if c = CHR 0x22 then scan QuoteSeen cur rec cs else scan Quoted (c # cur) rec cs)
      else if st = QuoteSeen \<and> c = CHR 0x22 then scan Quoted (c # cur) rec cs
      else if (st = RecordStart \<or> st = FieldStart) \<and> c = CHR 0x22 then scan Quoted cur rec cs
      else if c = CHR '','' then scan FieldStart [] (rev cur # rec) cs
      else if c = CHR 0x0A then
        (if st = RecordStart then [] else rev (rev cur # rec)) # scan RecordStart [] [] cs
      else scan Plain (c # cur) rec cs)"

definition csv_records :: "string \<Rightarrow> string list list" where
  "csv_records s = scan RecordStart [] [] s"







subsection \<open>The scenario of the specification and other concrete runs\<close>

text \<open>
  The upload \<open>AQI,PM2.5,PM10 / 100,30,40 / 200,50,60\<close>, the frame \<open>pd.read_csv\<close>
  makes of it (three integer columns), and the predictor that adds \<open>PM2.5\<close> and
  \<open>PM10\<close>.
\<close>

definition scenario_csv :: string where
  "scenario_csv = ''AQI,PM2.5,PM10\<newline>100,30,40\<newline>200,50,60\<newline>''"

definition scenario_table :: "int dataframe" where
  "scenario_table =
     \<lparr>index_len = 2,
      columns = [(''AQI'', [Scalar 100, Scalar 200]),
                 (''PM2.5'', [Scalar 30, Scalar 50]),
                 (''PM10'', [Scalar 40, Scalar 60])]\<rparr>"

fun add_cells :: "int cell \<Rightarrow> int cell \<Rightarrow> int cell" where
  "add_cells (Scalar x) (Scalar y) = Scalar (x + y)"
| "add_cells x y = NaN"

definition sum_predictor :: "int predictor" where
  "sum_predictor features =
     (case (map_of (columns features) ''PM2.5'', map_of (columns features) ''PM10'') of
        (Some a, Some b) \<Rightarrow> Inr (map2 add_cells a b)
      | _ \<Rightarrow> Inl (Exn KeyError ''PM2.5, PM10''))"

definition scenario_env :: "int env" where
  "scenario_env =
     \<lparr>uploaded_file = Some scenario_csv,
      read_csv = (\<lambda>text. if text = scenario_csv then Inr scenario_table
                         else Inl (Exn (OtherException ''ParserError'') ''Error tokenizing data'')),
      joblib_load = (\<lambda>path. Inr sum_predictor),
      button_clicked = True,
      str_of = str_int\<rparr>"

definition scenario_result :: "int dataframe" where
  "scenario_result =
     \<lparr>index_len = 2,
      columns = [(''AQI'', [Scalar 100, Scalar 200]),
                 (''PM2.5'', [Scalar 30, Scalar 50]),
                 (''PM10'', [Scalar 40, Scalar 60]),
                 (''Predicted_AQI'', [Scalar 70, Scalar 110])]\<rparr>"




text \<open>
  A predictor that rejects its input, as a fitted scikit-learn model does on a frame
  with the wrong number of columns.
\<close>

definition failing_predictor :: "int predictor" where
  "failing_predictor features =
     Inl (Exn ValueError ''X has 2 features, but LinearRegression is expecting 3 features as input.'')"

definition failing_predictor_env :: "int env" where
  "failing_predictor_env = scenario_env\<lparr>joblib_load := (\<lambda>path. Inr failing_predictor)\<rparr>"

text \<open>No file \<open>air_quality_model.pkl\<close>: \<open>joblib.load\<close> raises \<open>FileNotFoundError\<close>.\<close>

definition missing_model_env :: "int env" where
  "missing_model_env =
     scenario_env\<lparr>joblib_load :=
       (\<lambda>path. Inl (Exn FileNotFoundError ''[Errno 2] No such file or directory''))\<rparr>"

text \<open>
  A file \<open>air_quality_model.pkl\<close> of length zero: \<open>joblib.load\<close> raises \<open>EOFError\<close>,
  which is an \<open>Exception\<close> and no \<open>FileNotFoundError\<close>.
\<close>

definition corrupt_model_env :: "int env" where
  "corrupt_model_env =
     scenario_env\<lparr>joblib_load := (\<lambda>path. Inl (Exn (OtherException ''EOFError'') ''Ran out of input''))\<rparr>"

text \<open>
  An upload that starts with the signature of a PNG image: \<open>pd.read_csv\<close> raises
  \<open>UnicodeDecodeError\<close> at the first byte.
\<close>

definition png_signature :: string where
  "png_signature = [CHR 0x89, CHR ''P'', CHR ''N'', CHR ''G'', CHR 0x0D, CHR 0x0A, CHR 0x1A, CHR 0x0A]"

definition binary_upload_env :: "int env" where
  "binary_upload_env =
     scenario_env\<lparr>uploaded_file := Some png_signature,
       read_csv := (\<lambda>text. Inl (Exn (OtherException ''UnicodeDecodeError'')
         ''invalid start byte''))\<rparr>"

text \<open>
  The reading of an integer field, for the cells of the scenario: the empty field is the
  missing value, a minus sign negates, the digits are read in base ten.
\<close>

definition nat_of_digits :: "string \<Rightarrow> nat" where
  "nat_of_digits s = foldl (\<lambda>n c. 10 * n + (of_char c - 48)) 0 s"

definition read_int_cell :: "string \<Rightarrow> int cell" where
  "read_int_cell s =
     (case s of
        [] \<Rightarrow> NaN
      | c # ds \<Rightarrow>
          (if c = CHR ''-'' then Scalar (- int (nat_of_digits ds))
           else Scalar (int (nat_of_digits s))))"




text \<open>
  A model object with a state: it answers with the number of calls made on it so far,
  seven after unpickling, and counts the call.
\<close>

definition counting_session :: "(int, int) session" where
  "counting_session =
     \<lparr>upload = Some scenario_csv,
      pd_read_csv = (\<lambda>text. if text = scenario_csv then Inr scenario_table
                         else Inl (Exn (OtherException ''ParserError'') ''Error tokenizing data'')),
      load = (\<lambda>path. Inr 7),
      predict_method = (\<lambda>n features. (Inr (replicate (index_len features) (Scalar n)), n + 1)),
      pressed = True,
      cell_text = str_int\<rparr>"




definition counting_result :: "int dataframe" where
  "counting_result =
     \<lparr>index_len = 2,
      columns = [(''AQI'', [Scalar 100, Scalar 200]),
                 (''PM2.5'', [Scalar 30, Scalar 50]),
                 (''PM10'', [Scalar 40, Scalar 60]),
                 (''Predicted_AQI'', [Scalar 7, Scalar 7])]\<rparr>"

definition empty_heap :: "(int, int) heap" where
  "empty_heap = \<lparr>frames = [], models = []\<rparr>"

section \<open>Properties\<close>

subsection \<open>Auxiliary facts about the frame operations\<close>

lemma drop_columns_ignore:
  "drop_columns labels errors_ignore d =
     Inr (d\<lparr>columns := filter (\<lambda>(k, c). k \<notin> set labels) (columns d)\<rparr>)"
  by (simp add: drop_columns_def)

lemma predict_Inr:
  assumes "predict model d = (evs, Inr d')"
  obtains predictions where
    "model (d\<lparr>columns := filter (\<lambda>(k, c). k \<noteq> ''AQI'') (columns d)\<rparr>) = Inr predictions"
    "setitem ''Predicted_AQI'' predictions d = Inr d'"
    "evs = [ModelPredict (d\<lparr>columns := filter (\<lambda>(k, c). k \<noteq> ''AQI'') (columns d)\<rparr>)]"
  using assms
  by (auto simp: predict_def drop_columns_ignore split: sum.splits)

lemma predict_Inl:
  "predict model d = (evs, Inl e) \<Longrightarrow> try_body env model d = (evs, d, Some e)"
  by (simp add: try_body_def)

lemma setitem_aligned:
  assumes "setitem key v df = Inr df'" and "0 < index_len df \<or> length v = index_len df"
  shows "length v = index_len df" and "df' = df\<lparr>columns := set_column key v (columns df)\<rparr>"
  using assms by (auto simp: setitem_def split: if_splits)

lemma set_column_names:
  "map fst (set_column key v cols) =
     (if key \<in> set (map fst cols) then map fst cols else map fst cols @ [key])"
  by (induction cols) (auto simp: set_column_def)

lemma set_column_has_key:
  "key \<in> set (map fst (set_column key v cols))"
  by (simp add: set_column_names)

lemma set_column_lengths:
  assumes "\<forall>(k, c) \<in> set cols. length c = n" and "length v = n"
  shows "\<forall>(k, c) \<in> set (set_column key v cols). length c = n"
  using assms by (auto simp: set_column_def split: if_splits)



lemma set_column_key:
  "(key, c) \<in> set (set_column key v cols) \<Longrightarrow> c = v"
  by (force simp: set_column_def split: if_splits)





lemma setitem_prediction_complete:
  assumes "setitem key v df = Inr df'"
  shows "key \<in> set (column_names df') \<and>
         (\<forall>c. (key, c) \<in> set (columns df') \<longrightarrow> length c = index_len df')"
proof -
  from assms obtain cols where c: "columns df' = set_column key v cols"
    and l: "index_len df' = length v"
    by (auto simp: setitem_def split: if_splits)
  have "key \<in> set (column_names df')"
    unfolding column_names_def c by (rule set_column_has_key)
  moreover have "length x = index_len df'" if "(key, x) \<in> set (columns df')" for x
    using that set_column_key [of key x v cols] by (simp add: c l)
  ultimately show ?thesis
    by blast
qed

text \<open>
  The assignment changes the frame as a whole or not at all: after the \<open>try\<close> the
  frame is the one before it, or it has the column \<open>Predicted_AQI\<close> with a value in
  every row.
\<close>

lemma predict_all_or_nothing:
  assumes "prediction_block env model d = (evs, d', out)"
  shows "d' = d \<or>
    (''Predicted_AQI'' \<in> set (column_names d') \<and>
     (\<forall>c. (''Predicted_AQI'', c) \<in> set (columns d') \<longrightarrow> length c = index_len d'))"
proof (cases "predict model d")
  case (Pair evs0 r)
  show ?thesis
  proof (cases r)
    case (Inl e)
    with Pair assms have "d' = d"
      by (auto simp: prediction_block_def try_body_def split: if_splits)
    then show ?thesis ..
  next
    case (Inr d'')
    with Pair assms have "d' = d''"
      by (auto simp: prediction_block_def try_body_def)
    moreover from Pair Inr obtain v where "setitem ''Predicted_AQI'' v d = Inr d''"
      by (auto elim!: predict_Inr)
    ultimately show ?thesis
      using setitem_prediction_complete by blast
  qed
qed

text \<open>
  On a frame without rows pandas lets the assigned value decide the index, so a predictor
  that answers with a value there makes a row. The specification excludes this input
  (the table is not empty; the predictor returns one value per row), and the theorems
  about the result table state that as their hypothesis.
\<close>

lemma predict_on_empty_index:
  "predict (\<lambda>features. Inr [Scalar 7])
     \<lparr>index_len = 0, columns = [(''PM2.5'', [] :: int cell list)]\<rparr> =
   ([ModelPredict \<lparr>index_len = 0, columns = [(''PM2.5'', [])]\<rparr>],
    Inr \<lparr>index_len = 1, columns = [(''PM2.5'', [NaN]), (''Predicted_AQI'', [Scalar 7])]\<rparr>)"
  by (simp add: predict_def drop_columns_def setitem_def set_column_def)

subsection \<open>Auxiliary facts about reading the exported text\<close>

lemma scan_plain_chars:
  "\<not> needs_quote f \<Longrightarrow> scan Plain cur rec (f @ rest) = scan Plain (rev f @ cur) rec rest"
  by (induction f arbitrary: cur) (simp_all add: needs_quote_def)

lemma scan_plain_field:
  assumes "\<not> needs_quote f" and "st = RecordStart \<or> st = FieldStart" and "f \<noteq> []"
  shows "scan st [] rec (f @ rest) = scan Plain (rev f) rec rest"
proof -
  from assms(3) obtain c f' where f: "f = c # f'"
    by (cases f) auto
  with assms(1) have c: "c \<noteq> CHR '',''" "c \<noteq> CHR 0x22" "c \<noteq> CHR 0x0A" and f': "\<not> needs_quote f'"
    by (auto simp: needs_quote_def)
  from assms(2) c have "scan st [] rec (f @ rest) = scan Plain [c] rec (f' @ rest)"
    by (auto simp: f)
  also have "\<dots> = scan Plain (rev f' @ [c]) rec rest"
    using f' by (rule scan_plain_chars)
  finally show ?thesis
    by (simp add: f)
qed

lemma scan_quoted_chars:
  "scan Quoted cur rec
     (concat (map (\<lambda>c. if c = CHR 0x22 then [c, c] else [c]) f) @ CHR 0x22 # rest) =
   scan QuoteSeen (rev f @ cur) rec rest"
  by (induction f arbitrary: cur) simp_all

lemma scan_quoted_field:
  assumes "needs_quote f" and "st = RecordStart \<or> st = FieldStart"
  shows "scan st [] rec (csv_field f @ rest) = scan QuoteSeen (rev f) rec rest"
proof -
  have "scan st [] rec (csv_field f @ rest) =
      scan Quoted [] rec
        (concat (map (\<lambda>c. if c = CHR 0x22 then [c, c] else [c]) f) @ CHR 0x22 # rest)"
    using assms by (auto simp: csv_field_def)
  then show ?thesis
    by (simp add: scan_quoted_chars)
qed

lemma scan_field_comma:
  assumes "st = RecordStart \<or> st = FieldStart"
  shows "scan st [] rec (csv_field f @ CHR '','' # rest) = scan FieldStart [] (f # rec) rest"
proof (cases "needs_quote f")
  case True
  then show ?thesis
    using assms by (simp add: scan_quoted_field)
next
  case False
  show ?thesis
  proof (cases "f = []")
    case True
    then show ?thesis
      using assms by (auto simp: csv_field_def needs_quote_def)
  next
    case nonempty: False
    have "scan st [] rec (f @ CHR '','' # rest) = scan Plain (rev f) rec (CHR '','' # rest)"
      using False assms nonempty by (rule scan_plain_field)
    with False show ?thesis
      by (simp add: csv_field_def)
  qed
qed

lemma scan_field_newline:
  assumes "st = FieldStart \<or> st = RecordStart \<and> f \<noteq> []"
  shows "scan st [] rec (csv_field f @ CHR 0x0A # rest) =
         rev (f # rec) # scan RecordStart [] [] rest"
proof (cases "needs_quote f")
  case True
  with assms have "scan st [] rec (csv_field f @ CHR 0x0A # rest) =
      scan QuoteSeen (rev f) rec (CHR 0x0A # rest)"
    by (intro scan_quoted_field) auto
  then show ?thesis
    by simp
next
  case False
  show ?thesis
  proof (cases "f = []")
    case True
    then show ?thesis
      using assms by (auto simp: csv_field_def needs_quote_def)
  next
    case nonempty: False
    from assms have "st = RecordStart \<or> st = FieldStart"
      by auto
    with False have "scan st [] rec (f @ CHR 0x0A # rest) = scan Plain (rev f) rec (CHR 0x0A # rest)"
      using nonempty by (rule scan_plain_field)
    with False show ?thesis
      by (simp add: csv_field_def)
  qed
qed

lemma scan_fields:
  assumes "fs \<noteq> []" and "st = FieldStart \<or> st = RecordStart \<and> fs \<noteq> [[]]"
  shows "scan st [] rec (join '','' (map csv_field fs) @ CHR 0x0A # rest) =
         (rev rec @ fs) # scan RecordStart [] [] rest"
  using assms
proof (induction fs arbitrary: st rec)
  case Nil
  then show ?case by simp
next
  case (Cons f fs)
  show ?case
  proof (cases fs)
    case Nil
    with Cons.prems(2) have "st = FieldStart \<or> st = RecordStart \<and> f \<noteq> []"
      by auto
    then show ?thesis
      by (simp add: Nil scan_field_newline)
  next
    case (Cons g gs)
    from Cons.prems(2) have "st = RecordStart \<or> st = FieldStart"
      by auto
    then have "scan st [] rec (join '','' (map csv_field (f # fs)) @ CHR 0x0A # rest) =
        scan FieldStart [] (f # rec) (join '','' (map csv_field fs) @ CHR 0x0A # rest)"
      using scan_field_comma [of st rec f] by (simp add: Cons)
    also have "\<dots> = (rev (f # rec) @ fs) # scan RecordStart [] [] rest"
      by (rule Cons.IH) (simp_all add: Cons)
    finally show ?thesis
      by simp
  qed
qed

lemma scan_record:
  "scan RecordStart [] [] (csv_record fs @ rest) = fs # scan RecordStart [] [] rest"
proof -
  consider "fs = []" | "fs = [[]]" | "fs \<noteq> []" "fs \<noteq> [[]]"
    by blast
  then show ?thesis
  proof cases
    case 1
    then show ?thesis by (simp add: csv_record_def)
  next
    case 2
    then show ?thesis by (simp add: csv_record_def)
  next
    case 3
    then show ?thesis
      using scan_fields [of fs RecordStart "[]" rest] by (simp add: csv_record_def)
  qed
qed

lemma csv_records_written:
  "csv_records (concat (map csv_record rs)) = rs"
  unfolding csv_records_def
  by (induction rs) (simp_all add: scan_record)

subsection \<open>Auxiliary facts about UTF-8\<close>

lemma of_char_less_256: "of_char c < (256::nat)"
proof -
  have "(of_char c :: nat) mod 256 < 256" by simp
  then show ?thesis by (simp only: of_char_mod_256)
qed

lemma of_char_of_small: "n < 256 \<Longrightarrow> of_char (char_of (n::nat)) = n"
  by simp

lemma decode_utf8_two:
  assumes "(194::nat) \<le> of_char b" "of_char b < (224::nat)" "continuation b1"
  shows "decode_utf8 (b # b1 # bs) =
    map_option (Cons ((of_char b - 192) * 64 + low6 b1)) (decode_utf8 bs)"
  using assms by simp

lemma decode_utf8_one:
  assumes "of_char b < (128::nat)"
  shows "decode_utf8 (b # bs) = map_option (Cons (of_char b)) (decode_utf8 bs)"
  using assms by simp

lemma decode_utf8_char:
  "decode_utf8 (utf8_char c @ bs) = map_option (Cons (of_char c)) (decode_utf8 bs)"
proof (cases "of_char c < (128::nat)")
  case True
  then show ?thesis
    by (simp only: utf8_char_def if_True append_Cons append_Nil decode_utf8_one)
next
  case False
  define n :: nat where "n = of_char c"
  have n: "128 \<le> n" "n < 256"
    using False of_char_less_256 [of c] by (simp_all add: n_def)
  define hi lo where "hi = 192 + n div 64" and "lo = 128 + n mod 64"
  have hi: "194 \<le> hi" "hi < 224"
    using n by (simp_all add: hi_def)
  have lo: "128 \<le> lo" "lo < 192"
    by (simp_all add: lo_def)
  have ohi: "of_char (char_of hi) = hi"
    using hi by (intro of_char_of_small) simp
  have olo: "of_char (char_of lo) = lo"
    using lo by (intro of_char_of_small) simp
  have v: "(hi - 192) * 64 + (lo - 128) = n"
    by (simp add: hi_def lo_def)
  have u: "utf8_char c = [char_of hi, char_of lo]"
    using False by (simp only: utf8_char_def if_False hi_def lo_def n_def)
  have "decode_utf8 (char_of hi # char_of lo # bs) =
      map_option (Cons ((of_char (char_of hi) - 192) * 64 + low6 (char_of lo))) (decode_utf8 bs)"
    by (rule decode_utf8_two) (simp_all only: ohi olo hi lo continuation_def conj_commute)
  then show ?thesis
    by (simp only: u append_Cons append_Nil ohi low6_def olo v n_def)
qed

lemma decode_encode_utf8:
  "decode_utf8 (encode_utf8 s) = Some (map of_char s)"
  by (induction s) (simp_all add: encode_utf8_def decode_utf8_char del: decode_utf8.simps(2))

subsection \<open>Auxiliary facts about reading a written table\<close>

lemma to_csv_records:
  "csv_records (to_csv fmt False df) =
     column_names df # map (map (str_cell fmt \<circ> snd)) (rows df)"
proof -
  have "to_csv fmt False df =
      concat (map csv_record (column_names df # map (map (str_cell fmt \<circ> snd)) (rows df)))"
    by (simp add: to_csv_def rows_def comp_def)
  then show ?thesis
    by (simp only: csv_records_written)
qed

lemma cell_read_back:
  assumes "\<forall>v. Scalar v \<in> set c \<longrightarrow> read_scalar (fmt v) = Scalar v" and "read_scalar [] = NaN"
  shows "read_scalar (str_cell fmt (cell_at c i)) = cell_at c i"
proof (cases "cell_at c i")
  case (Scalar v)
  then have "Scalar v \<in> set c"
    by (metis cell.distinct(1) cell_at_def nth_mem)
  with assms(1) Scalar show ?thesis
    by (simp add: str_cell_def)
next
  case NaN
  with assms(2) show ?thesis
    by (simp add: str_cell_def)
qed








subsection \<open>Auxiliary facts about the store of objects\<close>

lemma session_env_sel:
  "uploaded_file (session_env s) = upload s"
  "read_csv (session_env s) = pd_read_csv s"
  "button_clicked (session_env s) = pressed s"
  "str_of (session_env s) = cell_text s"
  "joblib_load (session_env s) path =
     (case load s path of
        Inl e \<Rightarrow> Inl e
      | Inr m \<Rightarrow> Inr (\<lambda>features. fst (predict_method s m features)))"
  by (simp_all add: session_env_def)

lemma predict_in_place_run:
  assumes "data_ref < length (frames h)" and "model_ref < length (models h)"
  shows "\<exists>h'. predict_in_place s data_ref model_ref h =
           (fst (prediction_block (session_env s)
                  (\<lambda>features. fst (predict_method s (models h ! model_ref) features))
                  (frames h ! data_ref)),
            snd (snd (prediction_block (session_env s)
                  (\<lambda>features. fst (predict_method s (models h ! model_ref) features))
                  (frames h ! data_ref))),
            h') \<and>
         frames h' ! data_ref =
           fst (snd (prediction_block (session_env s)
                  (\<lambda>features. fst (predict_method s (models h ! model_ref) features))
                  (frames h ! data_ref)))"
  using assms
  by (auto simp: predict_in_place_def prediction_block_def try_body_def predict_def failed_def
      drop_columns_ignore new_frame_def session_env_sel nth_append Let_def
      split: prod.splits sum.splits)

subsection \<open>The result table\<close>

text \<open>
  Claim C1. A prediction that succeeds gives a result table with as many rows as the
  input table, and its set of column labels is that of the input together with
  \<open>Predicted_AQI\<close>, whether or not the input has a column \<open>AQI\<close>; a well-formed
  input gives a well-formed result. The input is one the specification admits: the table
  is not empty, or the predictor returned one value per row.
\<close>

theorem predict_rows_and_columns:
  assumes "predict model d = (evs, Inr d')"
    and "model (d\<lparr>columns := filter (\<lambda>(k, c). k \<noteq> ''AQI'') (columns d)\<rparr>) = Inr predictions"
    and "0 < index_len d \<or> length predictions = index_len d"
  shows "index_len d' = index_len d \<and> length (rows d') = length (rows d) \<and>
         set (column_names d') = set (column_names d) \<union> {''Predicted_AQI''} \<and>
         (well_formed d \<longrightarrow> well_formed d')"
proof -
  from assms(1,2) have s: "setitem ''Predicted_AQI'' predictions d = Inr d'"
    by (auto elim!: predict_Inr)
  note a = setitem_aligned [OF s assms(3)]
  have len: "index_len d' = index_len d"
    using a(2) by simp
  have names: "column_names d' =
      (if ''Predicted_AQI'' \<in> set (column_names d) then column_names d
       else column_names d @ [''Predicted_AQI''])"
    using a(2) by (simp add: column_names_def set_column_names)
  have wf: "well_formed d'" if "well_formed d"
  proof -
    from that have "\<forall>(k, c) \<in> set (columns d). length c = index_len d"
      by (simp add: well_formed_def)
    then have "\<forall>(k, c) \<in> set (set_column ''Predicted_AQI'' predictions (columns d)).
        length c = index_len d"
      using a(1) by (rule set_column_lengths)
    moreover have "distinct (column_names d')"
      using that names by (auto simp: well_formed_def)
    ultimately show ?thesis
      using a(2) len by (simp add: well_formed_def)
  qed
  show ?thesis
    using len names wf by (auto simp: rows_def)
qed

text \<open>
  The scenario of the specification as an instance.
\<close>

theorem predict_rows_and_columns_witness:
  "predict sum_predictor scenario_table =
     ([ModelPredict (scenario_table\<lparr>columns := filter (\<lambda>(k, c). k \<noteq> ''AQI'') (columns scenario_table)\<rparr>)],
      Inr scenario_result) \<and>
   0 < index_len scenario_table \<and> well_formed scenario_table \<and>
   index_len scenario_result = index_len scenario_table \<and>
   length (rows scenario_result) = 2 \<and>
   set (column_names scenario_result) = {''AQI'', ''PM2.5'', ''PM10'', ''Predicted_AQI''} \<and>
   well_formed scenario_result"
proof -
  have p: "predict sum_predictor scenario_table =
     ([ModelPredict (scenario_table\<lparr>columns := filter (\<lambda>(k, c). k \<noteq> ''AQI'') (columns scenario_table)\<rparr>)],
      Inr scenario_result)"
    by (simp add: predict_def drop_columns_def sum_predictor_def scenario_table_def
        scenario_result_def setitem_def set_column_def)
  have m: "sum_predictor (scenario_table\<lparr>columns := filter (\<lambda>(k, c). k \<noteq> ''AQI'') (columns scenario_table)\<rparr>)
      = Inr [Scalar 70, Scalar 110]"
    by (simp add: sum_predictor_def scenario_table_def)
  have n: "0 < index_len scenario_table \<or> length [Scalar 70, Scalar 110 :: int cell] = index_len scenario_table"
    by (simp add: scenario_table_def)
  have w: "well_formed scenario_table"
    by (simp add: well_formed_def scenario_table_def column_names_def)
  show ?thesis
    using predict_rows_and_columns [OF p m n] p w
    by (simp add: scenario_table_def column_names_def rows_def insert_commute)
qed






text \<open>
  Claim C8. Two presses of the button on the same upload and the same artifact give
  the same result table, the same download and the same messages, whatever the first
  press left behind: the frame it changed in place and the model object whose state its
  call changed stay in the store, and the second run reads the upload and loads the
  model anew (lines 14 and 20), so it works on objects of its own. Every run from any
  store is the run that \<open>run_script\<close> describes, with the predictor being the first
  answer of a freshly loaded model.
\<close>

theorem press_twice_identical:
  "fst (press s (snd (press s h))) = fst (press s h) \<and>
   fst (press s h) = run_script (session_env s)"
proof -
  have "fst (press s h0) = run_script (session_env s)" for h0
  proof (cases "upload s")
    case None
    then show ?thesis
      by (simp add: press_def run_script_def session_env_sel)
  next
    case (Some f)
    show ?thesis
    proof (cases "pd_read_csv s f")
      case (Inl e)
      with Some show ?thesis
        by (simp add: press_def run_script_def session_env_sel)
    next
      case (Inr d)
      show ?thesis
      proof (cases "load s ''air_quality_model.pkl''")
        case (Inl e)
        with Some Inr show ?thesis
          by (simp add: press_def run_script_def session_env_sel load_model_def new_frame_def)
      next
        case m: (Inr m)
        show ?thesis
        proof (cases "pressed s")
          case False
          with Some Inr m show ?thesis
            by (simp add: press_def run_script_def session_env_sel load_model_def new_frame_def
                new_model_def nth_append)
        next
          case True
          let ?p = "prediction_block (session_env s) (\<lambda>features. fst (predict_method s m features)) d"
          let ?h2 = "h0\<lparr>frames := frames h0 @ [d], models := models h0 @ [m]\<rparr>"
          have "frames ?h2 ! length (frames h0) = d" and "models ?h2 ! length (models h0) = m"
            by simp_all
          with predict_in_place_run [of "length (frames h0)" ?h2 "length (models h0)" s]
          obtain h0'' where p: "predict_in_place s (length (frames h0)) (length (models h0)) ?h2 =
               (fst ?p, snd (snd ?p), h0'')"
            and q: "frames h0'' ! length (frames h0) = fst (snd ?p)"
            by auto
          have "press s h0 =
              (\<lparr>effects = page_top @
                  [ReadCsv f, Subheader ''Input Data Preview'', Write (head d),
                   JoblibLoad ''air_quality_model.pkl'', Button ''Predict AQI''] @ fst ?p,
                result = snd (snd ?p), data = Some (fst (snd ?p))\<rparr>, h0'')"
            using Some Inr m True p q
            by (simp add: press_def new_frame_def new_model_def)
          moreover have "run_script (session_env s) =
              \<lparr>effects = page_top @
                  [ReadCsv f, Subheader ''Input Data Preview'', Write (head d),
                   JoblibLoad ''air_quality_model.pkl'', Button ''Predict AQI''] @ fst ?p,
                result = snd (snd ?p), data = Some (fst (snd ?p))\<rparr>"
            using Some Inr m True
            by (simp add: run_script_def load_model_def session_env_sel split: prod.splits)
          ultimately show ?thesis
            by simp
        qed
      qed
    qed
  qed
  then show ?thesis
    by simp
qed

text \<open>
  A model that counts its calls answers 7 on its first call and 8 on its second. After
  one press the store holds the changed frame and the model in state 8; the second
  press still shows the result of a first call.
\<close>

theorem press_twice_identical_witness:
  "snd (press counting_session empty_heap) =
     \<lparr>frames = [counting_result,
                 \<lparr>index_len = 2,
                  columns = [(''PM2.5'', [Scalar 30, Scalar 50]), (''PM10'', [Scalar 40, Scalar 60])]\<rparr>],
      models = [8]\<rparr> \<and>
   predict_method counting_session 7 scenario_table = (Inr [Scalar 7, Scalar 7], 8) \<and>
   predict_method counting_session 8 scenario_table = (Inr [Scalar 8, Scalar 8], 9) \<and>
   data (fst (press counting_session empty_heap)) = Some counting_result \<and>
   fst (press counting_session (snd (press counting_session empty_heap))) =
     fst (press counting_session empty_heap)"
proof -
  have "snd (press counting_session empty_heap) =
     \<lparr>frames = [counting_result,
                 \<lparr>index_len = 2,
                  columns = [(''PM2.5'', [Scalar 30, Scalar 50]), (''PM10'', [Scalar 40, Scalar 60])]\<rparr>],
      models = [8]\<rparr>"
    by code_simp
  moreover have "predict_method counting_session 7 scenario_table = (Inr [Scalar 7, Scalar 7], 8)"
    and "predict_method counting_session 8 scenario_table = (Inr [Scalar 8, Scalar 8], 9)"
    by (simp_all add: counting_session_def scenario_table_def numeral_2_eq_2)
  moreover have "data (fst (press counting_session empty_heap)) = Some counting_result"
    by code_simp
  ultimately show ?thesis
    using press_twice_identical [of counting_session empty_heap] by simp
qed

subsection \<open>Failures\<close>

text \<open>
  Claim C3. When the call of the predictor raises an \<open>Exception\<close>, the run shows
  \<open>Prediction failed:\<close> followed by the text of the exception, ends normally, shows
  no result table and offers no download, and \<open>data\<close> is the table that was read.
\<close>

theorem prediction_failure_reported:
  assumes "uploaded_file env = Some f" and "read_csv env f = Inr d"
    and "joblib_load env ''air_quality_model.pkl'' = Inr model" and "button_clicked env"
    and "model (d\<lparr>columns := filter (\<lambda>(k, c). k \<noteq> ''AQI'') (columns d)\<rparr>) = Inl e"
    and "is_Exception (klass e)"
  shows "run_script env =
     \<lparr>effects = page_top @
        [ReadCsv f, Subheader ''Input Data Preview'', Write (head d),
         JoblibLoad ''air_quality_model.pkl'', Button ''Predict AQI'',
         ModelPredict (d\<lparr>columns := filter (\<lambda>(k, c). k \<noteq> ''AQI'') (columns d)\<rparr>),
         Error (''Prediction failed: '' @ message e)],
      result = Completed, data = Some d\<rparr>"
  using assms
  by (simp add: run_script_def load_model_def prediction_block_def try_body_def predict_def
      drop_columns_ignore)

theorem prediction_failure_reported_witness:
  "uploaded_file failing_predictor_env = Some scenario_csv \<and>
   read_csv failing_predictor_env scenario_csv = Inr scenario_table \<and>
   joblib_load failing_predictor_env ''air_quality_model.pkl'' = Inr failing_predictor \<and>
   button_clicked failing_predictor_env \<and>
   is_Exception ValueError \<and>
   result (run_script failing_predictor_env) = Completed \<and>
   data (run_script failing_predictor_env) = Some scenario_table \<and>
   last (effects (run_script failing_predictor_env)) =
     Error ''Prediction failed: X has 2 features, but LinearRegression is expecting 3 features as input.''"
proof -
  let ?e = "Exn ValueError ''X has 2 features, but LinearRegression is expecting 3 features as input.''"
  have u: "uploaded_file failing_predictor_env = Some scenario_csv"
    and r: "read_csv failing_predictor_env scenario_csv = Inr scenario_table"
    and j: "joblib_load failing_predictor_env ''air_quality_model.pkl'' = Inr failing_predictor"
    and b: "button_clicked failing_predictor_env"
    by (simp_all add: failing_predictor_env_def scenario_env_def)
  have m: "failing_predictor
      (scenario_table\<lparr>columns := filter (\<lambda>(k, c). k \<noteq> ''AQI'') (columns scenario_table)\<rparr>) = Inl ?e"
    by (simp add: failing_predictor_def)
  have x: "is_Exception (klass ?e)"
    by simp
  show ?thesis
    using prediction_failure_reported [OF u r j b m x] u r j b
    by simp
qed

text \<open>
  Claim C6. When \<open>joblib.load\<close> raises \<open>FileNotFoundError\<close>, no run calls the
  predictor; a run that got as far as loading the model shows the message that the model
  file was not found and stops there.
\<close>

theorem missing_model_halts:
  assumes "joblib_load env ''air_quality_model.pkl'' = Inl e" and "klass e = FileNotFoundError"
  shows "(\<forall>features. ModelPredict features \<notin> set (effects (run_script env))) \<and>
         (\<forall>f d. uploaded_file env = Some f \<longrightarrow> read_csv env f = Inr d \<longrightarrow>
            run_script env =
              \<lparr>effects = page_top @
                 [ReadCsv f, Subheader ''Input Data Preview'', Write (head d),
                  JoblibLoad ''air_quality_model.pkl'',
                  Error ''Model file not found! Please add 'air_quality_model.pkl'.''],
               result = Stopped, data = Some d\<rparr>)"
  using assms
  by (auto simp: run_script_def load_model_def page_top_def split: option.splits sum.splits)

theorem missing_model_halts_witness:
  "joblib_load missing_model_env ''air_quality_model.pkl'' =
     Inl (Exn FileNotFoundError ''[Errno 2] No such file or directory'') \<and>
   uploaded_file missing_model_env = Some scenario_csv \<and>
   read_csv missing_model_env scenario_csv = Inr scenario_table \<and>
   result (run_script missing_model_env) = Stopped \<and>
   last (effects (run_script missing_model_env)) =
     Error ''Model file not found! Please add 'air_quality_model.pkl'.'' \<and>
   ModelPredict (scenario_table\<lparr>columns := filter (\<lambda>(k, c). k \<noteq> ''AQI'') (columns scenario_table)\<rparr>)
     \<notin> set (effects (run_script missing_model_env))"
proof -
  let ?e = "Exn FileNotFoundError ''[Errno 2] No such file or directory''"
  have j: "joblib_load missing_model_env ''air_quality_model.pkl'' = Inl ?e"
    and u: "uploaded_file missing_model_env = Some scenario_csv"
    and r: "read_csv missing_model_env scenario_csv = Inr scenario_table"
    by (simp_all add: missing_model_env_def scenario_env_def)
  have k: "klass ?e = FileNotFoundError"
    by simp
  note g = missing_model_halts [OF j k]
  from g u r have x: "run_script missing_model_env =
      \<lparr>effects = page_top @
         [ReadCsv scenario_csv, Subheader ''Input Data Preview'', Write (head scenario_table),
          JoblibLoad ''air_quality_model.pkl'',
          Error ''Model file not found! Please add 'air_quality_model.pkl'.''],
       result = Stopped, data = Some scenario_table\<rparr>"
    by blast
  from g have n: "ModelPredict (scenario_table\<lparr>columns := filter (\<lambda>(k, c). k \<noteq> ''AQI'') (columns scenario_table)\<rparr>)
     \<notin> set (effects (run_script missing_model_env))"
    by blast
  have "result (run_script missing_model_env) = Stopped"
    and "last (effects (run_script missing_model_env)) =
     Error ''Model file not found! Please add 'air_quality_model.pkl'.''"
    by (simp_all add: x)
  with j u r n show ?thesis
    by blast
qed

text \<open>
  Claim C4, what the script does. \<open>pd.read_csv\<close> is called outside every
  \<open>try\<close>: when it raises, the exception leaves the script uncaught, after the page
  top and with no call of \<open>st.error\<close>. No table is made, as the claim says; the
  message it promises is not shown by the script.
\<close>

theorem malformed_upload_uncaught:
  assumes "uploaded_file env = Some f" and "read_csv env f = Inl e"
  shows "run_script env = \<lparr>effects = page_top @ [ReadCsv f], result = Uncaught e, data = None\<rparr> \<and>
         (\<forall>msg. Error msg \<notin> set (effects (run_script env)))"
  using assms
  by (simp add: run_script_def page_top_def)

theorem malformed_upload_uncaught_witness:
  "uploaded_file binary_upload_env = Some png_signature \<and>
   read_csv binary_upload_env png_signature =
     Inl (Exn (OtherException ''UnicodeDecodeError'') ''invalid start byte'') \<and>
   result (run_script binary_upload_env) =
     Uncaught (Exn (OtherException ''UnicodeDecodeError'') ''invalid start byte'') \<and>
   effects (run_script binary_upload_env) = page_top @ [ReadCsv png_signature] \<and>
   data (run_script binary_upload_env) = None"
proof -
  have u: "uploaded_file binary_upload_env = Some png_signature"
    and r: "read_csv binary_upload_env png_signature =
      Inl (Exn (OtherException ''UnicodeDecodeError'') ''invalid start byte'')"
    by (simp_all add: binary_upload_env_def scenario_env_def)
  show ?thesis
    using malformed_upload_uncaught [OF u r] u r
    by simp
qed

text \<open>
  Claim C5, what the script does. The handler around \<open>joblib.load\<close> catches
  \<open>FileNotFoundError\<close> only: any other exception of the load leaves the script
  uncaught, with no call of \<open>st.error\<close>. The predictor is not called, as the claim
  says; the message it promises is not shown by the script.
\<close>

theorem corrupt_model_uncaught:
  assumes "uploaded_file env = Some f" and "read_csv env f = Inr d"
    and "joblib_load env ''air_quality_model.pkl'' = Inl e" and "klass e \<noteq> FileNotFoundError"
  shows "run_script env =
           \<lparr>effects = page_top @
              [ReadCsv f, Subheader ''Input Data Preview'', Write (head d),
               JoblibLoad ''air_quality_model.pkl''],
            result = Uncaught e, data = Some d\<rparr> \<and>
         (\<forall>msg. Error msg \<notin> set (effects (run_script env))) \<and>
         (\<forall>features. ModelPredict features \<notin> set (effects (run_script env)))"
  using assms
  by (simp add: run_script_def load_model_def page_top_def)

theorem corrupt_model_uncaught_witness:
  "uploaded_file corrupt_model_env = Some scenario_csv \<and>
   read_csv corrupt_model_env scenario_csv = Inr scenario_table \<and>
   joblib_load corrupt_model_env ''air_quality_model.pkl'' =
     Inl (Exn (OtherException ''EOFError'') ''Ran out of input'') \<and>
   OtherException ''EOFError'' \<noteq> FileNotFoundError \<and> is_Exception (OtherException ''EOFError'') \<and>
   result (run_script corrupt_model_env) =
     Uncaught (Exn (OtherException ''EOFError'') ''Ran out of input'') \<and>
   last (effects (run_script corrupt_model_env)) = JoblibLoad ''air_quality_model.pkl''"
proof -
  let ?e = "Exn (OtherException ''EOFError'') ''Ran out of input''"
  have u: "uploaded_file corrupt_model_env = Some scenario_csv"
    and r: "read_csv corrupt_model_env scenario_csv = Inr scenario_table"
    and j: "joblib_load corrupt_model_env ''air_quality_model.pkl'' = Inl ?e"
    by (simp_all add: corrupt_model_env_def scenario_env_def)
  have k: "klass ?e \<noteq> FileNotFoundError"
    by simp
  show ?thesis
    using corrupt_model_uncaught [OF u r j k] u r j
    by simp
qed

subsection \<open>The export\<close>

text \<open>
  Claim C9. The bytes offered for download are the UTF-8 encoding of the text that
  \<open>to_csv(index=False)\<close> writes: a reader of UTF-8 recovers that text from them. The
  text is a CSV file whose first record is the header, the labels of the columns in their
  order, and whose other records, read with any reader of fields that undoes the writer
  of the cells, are the rows of the table, cell by cell in the order of the columns, with
  no field for the index. The hypothesis is that the cells can be serialized: the text of
  a value can be read again as that value, and the empty field is the missing value.
\<close>

theorem export_csv_serializes:
  assumes "\<forall>(k, c) \<in> set (columns df). \<forall>v. Scalar v \<in> set c \<longrightarrow> read_scalar (fmt v) = Scalar v"
    and "read_scalar [] = NaN"
  shows "decode_utf8 (export_csv fmt df) = Some (map of_char (to_csv fmt False df)) \<and>
         (\<exists>body. csv_records (to_csv fmt False df) = column_names df # body \<and>
                 map (map read_scalar) body = map (map snd) (rows df))"
proof -
  have "map read_scalar (map (str_cell fmt \<circ> snd) (row df i)) = map snd (row df i)" for i
    using assms by (auto simp: row_def cell_read_back)
  then have "map (map read_scalar) (map (map (str_cell fmt \<circ> snd)) (rows df)) =
      map (map snd) (rows df)"
    by (simp add: rows_def)
  then show ?thesis
    by (simp add: export_csv_def decode_encode_utf8 to_csv_records)
qed

text \<open>
  The download of the scenario, with decimal integers as cells.
\<close>

theorem export_csv_serializes_witness:
  "map read_int_cell (map str_int [100, 200, 30, 50, 40, 60, 70, 110]) =
     map Scalar [100, 200, 30, 50, 40, 60, 70, 110] \<and>
   read_int_cell [] = NaN \<and>
   export_csv str_int scenario_result =
     ''AQI,PM2.5,PM10,Predicted_AQI\<newline>100,30,40,70\<newline>200,50,60,110\<newline>'' \<and>
   decode_utf8 (export_csv str_int scenario_result) =
     Some (map of_char (to_csv str_int False scenario_result)) \<and>
   csv_records (to_csv str_int False scenario_result) =
     [[''AQI'', ''PM2.5'', ''PM10'', ''Predicted_AQI''],
      [''100'', ''30'', ''40'', ''70''],
      [''200'', ''50'', ''60'', ''110'']] \<and>
   map (map read_int_cell) (tl (csv_records (to_csv str_int False scenario_result))) =
     [[Scalar 100, Scalar 30, Scalar 40, Scalar 70],
      [Scalar 200, Scalar 50, Scalar 60, Scalar 110]]"
proof -
  have v: "read_int_cell (str_int 100) = Scalar 100" "read_int_cell (str_int 200) = Scalar 200"
    "read_int_cell (str_int 30) = Scalar 30" "read_int_cell (str_int 50) = Scalar 50"
    "read_int_cell (str_int 40) = Scalar 40" "read_int_cell (str_int 60) = Scalar 60"
    "read_int_cell (str_int 70) = Scalar 70" "read_int_cell (str_int 110) = Scalar 110"
    by code_simp+
  have h: "\<forall>(k, c) \<in> set (columns scenario_result). \<forall>v. Scalar v \<in> set c \<longrightarrow>
      read_int_cell (str_int v) = Scalar v"
    using v by (auto simp: scenario_result_def)
  have n: "read_int_cell [] = NaN"
    by (simp add: read_int_cell_def)
  have e: "export_csv str_int scenario_result =
     ''AQI,PM2.5,PM10,Predicted_AQI\<newline>100,30,40,70\<newline>200,50,60,110\<newline>''"
    by code_simp
  have r: "csv_records (to_csv str_int False scenario_result) =
     [[''AQI'', ''PM2.5'', ''PM10'', ''Predicted_AQI''],
      [''100'', ''30'', ''40'', ''70''],
      [''200'', ''50'', ''60'', ''110'']]"
    by code_simp
  have m: "map snd (row scenario_result 0) = [Scalar 100, Scalar 30, Scalar 40, Scalar 70]"
    "map snd (row scenario_result 1) = [Scalar 200, Scalar 50, Scalar 60, Scalar 110]"
    by (simp_all add: row_def scenario_result_def cell_at_def)
  have rs: "map (map snd) (rows scenario_result) =
     [[Scalar 100, Scalar 30, Scalar 40, Scalar 70],
      [Scalar 200, Scalar 50, Scalar 60, Scalar 110]]"
    using m by (simp add: rows_def scenario_result_def upt_rec)
  from export_csv_serializes [OF h n]
  have d: "decode_utf8 (export_csv str_int scenario_result) =
     Some (map of_char (to_csv str_int False scenario_result))"
    and b: "map (map read_int_cell) (tl (csv_records (to_csv str_int False scenario_result))) =
      map (map snd) (rows scenario_result)"
    by auto
  have c: "map read_int_cell (map str_int [100, 200, 30, 50, 40, 60, 70, 110]) =
     map Scalar [100, 200, 30, 50, 40, 60, 70, 110]"
    using v by simp
  from c n e d r b rs show ?thesis
    by (simp only: simp_thms)
qed




end
